theory Spec2Isabelle
  imports Complex_Main "HOL-Library.Sublist"
begin

section \<open>Python values used by the two colour-asset scripts\<close>

text \<open>
  The repository holds two scripts, \<^verbatim>\<open>GutCheck.xcodeproj/generate_color_assets.py\<close> and
  \<^verbatim>\<open>create_colors.py\<close>.  Definitions without a prefix embed the former, definitions
  prefixed \<open>cc_\<close> the latter.

  Strings are lists of code points below 256 (\<^typ>\<open>char\<close>).  A Python \<^verbatim>\<open>float\<close> that
  arises as \<^verbatim>\<open>n / 255.0\<close> is modelled by the exact quotient in \<^typ>\<open>rat\<close>; the double
  Python holds is the one nearest to that quotient.  The only consumer of these values is
  the format \<^verbatim>\<open>:.3f\<close>, which rounds to thousandths, and lemma \<open>no_tie_255\<close> below shows
  that a quotient with denominator 255 is never closer than 1/510 of a thousandth to a
  rounding boundary, so the rounding of the double and of the quotient agree.
\<close>

datatype py_error =
    ValueError
  | FileNotFoundError
  | FileExistsError
  | NotADirectoryError
  | IsADirectoryError

type_synonym py_float = rat

datatype json =
    JStr string
  | JInt int
  | JList "json list"
  | JObj "(string \<times> json) list"

subsection \<open>\<^verbatim>\<open>str.lstrip('#')\<close> and slicing\<close>

definition lstrip_hash :: "string \<Rightarrow> string" where
  "lstrip_hash s = dropWhile (\<lambda>c. c = CHR ''#'') s"

definition slice2 :: "string \<Rightarrow> nat \<Rightarrow> string" where
  \<comment> \<open>\<^verbatim>\<open>h[i:i+2]\<close>: slicing never raises, it returns what is there.\<close>
  "slice2 h i = take 2 (drop i h)"

subsection \<open>\<^verbatim>\<open>int(s, 16)\<close>\<close>

text \<open>
  The builtin skips leading whitespace, reads an optional sign, an optional \<^verbatim>\<open>0x\<close>
  prefix (after which one underscore is allowed), then digits separated by single
  underscores, then trailing whitespace, and raises \<^verbatim>\<open>ValueError\<close> unless at least one
  digit was read and the whole string was consumed.  Among the code points below 256 the
  whitespace characters are the six of ASCII, NEL (0x85) and the no-break space (0xA0),
  and the only digits are the ASCII ones.  From code point 256 on the builtin also accepts
  the other decimal digits and whitespace characters of Unicode; a \<^typ>\<open>string\<close> cannot
  hold them, so \<open>py_int16\<close> describes the builtin on strings of code points below 256
  only, and every statement about it below is meant for those strings.
\<close>

definition py_isspace :: "char \<Rightarrow> bool" where
  "py_isspace c = (c \<in> {CHR 0x09, CHR 0x0A, CHR 0x0B, CHR 0x0C, CHR 0x0D, CHR 0x20,
                          CHR 0x85, CHR 0xA0})"

definition hex_digit :: "char \<Rightarrow> nat option" where
  \<comment> \<open>the digit table of the builtin, restricted to base 16\<close>
  "hex_digit c =
     map_of (zip ''0123456789abcdefABCDEF''
                 [0, 1, 2, 3, 4, 5, 6, 7, 8, 9, 10, 11, 12, 13, 14, 15, 10, 11, 12, 13, 14, 15]) c"

fun scan_digits :: "bool \<Rightarrow> nat \<Rightarrow> nat \<Rightarrow> string \<Rightarrow> (nat \<times> nat \<times> string) option" where
  "scan_digits prev_us k acc [] = (if prev_us then None else Some (k, acc, []))"
| "scan_digits prev_us k acc (c # cs) =
     (if c = CHR ''_'' then (if prev_us then None else scan_digits True k acc cs)
      else case hex_digit c of
             Some d \<Rightarrow> scan_digits False (Suc k) (16 * acc + d) cs
           | None \<Rightarrow> (if prev_us then None else Some (k, acc, c # cs)))"

definition skip_sign :: "string \<Rightarrow> bool \<times> string" where
  "skip_sign s =
     (case s of
        [] \<Rightarrow> (False, [])
      | c # cs \<Rightarrow> if c = CHR ''+'' then (False, cs)
                  else if c = CHR ''-'' then (True, cs)
                  else (False, s))"

definition skip_prefix :: "string \<Rightarrow> string" where
  "skip_prefix s =
     (case s of
        a # b # cs \<Rightarrow>
          if a = CHR ''0'' \<and> (b = CHR ''x'' \<or> b = CHR ''X'')
          then (case cs of [] \<Rightarrow> cs | d # ds \<Rightarrow> if d = CHR ''_'' then ds else cs)
          else s
      | _ \<Rightarrow> s)"

definition py_int16 :: "string \<Rightarrow> py_error + int" where
  "py_int16 s =
     (let (neg, s2) = skip_sign (dropWhile py_isspace s);
          s3 = skip_prefix s2
      in if take 1 s3 = ''_'' then Inl ValueError
         else case scan_digits False 0 0 s3 of
                None \<Rightarrow> Inl ValueError
              | Some (k, v, rest) \<Rightarrow>
                  if k = 0 then Inl ValueError
                  else if dropWhile py_isspace rest \<noteq> [] then Inl ValueError
                  else Inr (if neg then - int v else int v))"

subsection \<open>\<^verbatim>\<open>hex_to_rgb\<close>, both scripts\<close>

definition div255 :: "int \<Rightarrow> py_float" where
  "div255 n = of_int n / 255"

definition hex_to_rgb :: "string \<Rightarrow> py_error + (py_float \<times> py_float \<times> py_float)" where
  "hex_to_rgb hex_color =
     (let hex_color = lstrip_hash hex_color in
      case py_int16 (slice2 hex_color 0) of
        Inl e \<Rightarrow> Inl e
      | Inr r \<Rightarrow>
         (case py_int16 (slice2 hex_color 2) of
            Inl e \<Rightarrow> Inl e
          | Inr g \<Rightarrow>
             (case py_int16 (slice2 hex_color 4) of
                Inl e \<Rightarrow> Inl e
              | Inr b \<Rightarrow> Inr (div255 r, div255 g, div255 b))))"

fun collect :: "('a \<Rightarrow> py_error + 'b) \<Rightarrow> 'a list \<Rightarrow> py_error + 'b list" where
  \<comment> \<open>\<^verbatim>\<open>tuple(f(i) for i in xs)\<close>: left to right, the first exception ends it.\<close>
  "collect f [] = Inr []"
| "collect f (x # xs) =
     (case f x of
        Inl e \<Rightarrow> Inl e
      | Inr y \<Rightarrow> (case collect f xs of Inl e \<Rightarrow> Inl e | Inr ys \<Rightarrow> Inr (y # ys)))"

definition cc_hex_to_rgb :: "string \<Rightarrow> py_error + py_float list" where
  "cc_hex_to_rgb h =
     (let h = lstrip_hash h in
      collect (\<lambda>i. case py_int16 (slice2 h i) of Inl e \<Rightarrow> Inl e | Inr n \<Rightarrow> Inr (div255 n))
              [0, 2, 4])"

subsection \<open>The format \<^verbatim>\<open>f"{x:.3f}"\<close>\<close>

text \<open>
  The format prints the sign, the integer part and three decimals of the value rounded to
  the nearest thousandth.  The tie branch is the rule for a value that lies exactly between
  two thousandths; no value \<open>n / 255\<close> reaches it (lemma \<open>no_tie_255\<close>).
\<close>

definition round_half_even :: "rat \<Rightarrow> int" where
  "round_half_even x =
     (let q = \<lfloor>x\<rfloor>; r = x - of_int q in
      if r < 1 / 2 then q
      else if 1 / 2 < r then q + 1
      else if even q then q else q + 1)"

definition digit_char :: "nat \<Rightarrow> char" where
  \<comment> \<open>only applied to \<open>d < 10\<close>\<close>
  "digit_char d = ''0123456789'' ! d"

fun str_nat :: "nat \<Rightarrow> string" where
  "str_nat n = (if n < 10 then [digit_char n] else str_nat (n div 10) @ [digit_char (n mod 10)])"

declare str_nat.simps [simp del]

definition fmt3 :: "py_float \<Rightarrow> string" where
  "fmt3 x =
     (let m = nat (round_half_even (\<bar>x\<bar> * 1000)) in
      (if x < 0 then [CHR ''-''] else [])
      @ str_nat (m div 1000) @ [CHR ''.'']
      @ [digit_char (m div 100 mod 10), digit_char (m div 10 mod 10), digit_char (m mod 10)])"

subsection \<open>The colour tables\<close>

definition COLORS :: "(string \<times> string \<times> string) list" where
  "COLORS =
     [(''PrimaryColor'', ''#0891B2'', ''#06B6D4''),
      (''AccentColor'', ''#F97316'', ''#FB923C''),
      (''SecondaryColor'', ''#8B5CF6'', ''#A78BFA''),
      (''BackgroundColor'', ''#FFFFFF'', ''#0F172A''),
      (''CardBackground'', ''#F8FAFC'', ''#1E293B''),
      (''SurfaceColor'', ''#F1F5F9'', ''#334155''),
      (''PrimaryText'', ''#0F172A'', ''#F8FAFC''),
      (''SecondaryText'', ''#475569'', ''#CBD5E1''),
      (''TertiaryText'', ''#94A3B8'', ''#64748B''),
      (''SuccessColor'', ''#10B981'', ''#34D399''),
      (''WarningColor'', ''#F59E0B'', ''#FBBF24''),
      (''ErrorColor'', ''#EF4444'', ''#F87171''),
      (''InfoColor'', ''#3B82F6'', ''#60A5FA''),
      (''BorderColor'', ''#E2E8F0'', ''#334155''),
      (''DisabledColor'', ''#CBD5E1'', ''#475569''),
      (''InputBackground'', ''#F8FAFC'', ''#1E293B''),
      (''SymptomColor'', ''#EC4899'', ''#F472B6'')]"

definition cc_COLORS :: "(string \<times> string \<times> string) list" where
  "cc_COLORS =
     [(''GutCheckPrimary'', ''#0891B2'', ''#06B6D4''),
      (''GutCheckAccent'', ''#F97316'', ''#FB923C''),
      (''GutCheckSecondary'', ''#8B5CF6'', ''#A78BFA''),
      (''GutCheckBackground'', ''#FFFFFF'', ''#0F172A''),
      (''GutCheckCardBackground'', ''#F8FAFC'', ''#1E293B''),
      (''GutCheckSurface'', ''#F1F5F9'', ''#334155''),
      (''GutCheckPrimaryText'', ''#0F172A'', ''#F8FAFC''),
      (''GutCheckSecondaryText'', ''#475569'', ''#CBD5E1''),
      (''GutCheckTertiaryText'', ''#94A3B8'', ''#64748B''),
      (''GutCheckSuccess'', ''#10B981'', ''#34D399''),
      (''GutCheckWarning'', ''#F59E0B'', ''#FBBF24''),
      (''GutCheckError'', ''#EF4444'', ''#F87171''),
      (''GutCheckInfo'', ''#3B82F6'', ''#60A5FA''),
      (''GutCheckBorder'', ''#E2E8F0'', ''#334155''),
      (''GutCheckDisabled'', ''#CBD5E1'', ''#475569''),
      (''GutCheckInputBackground'', ''#F8FAFC'', ''#1E293B''),
      (''GutCheckSymptom'', ''#EC4899'', ''#F472B6'')]"

subsection \<open>The \<^verbatim>\<open>Contents.json\<close> structure\<close>

text \<open>
  A dict literal is an association list in the order the source writes its keys, which is
  also the order \<^verbatim>\<open>json.dump\<close> writes them.
\<close>

definition create_color_json :: "string \<Rightarrow> string \<Rightarrow> py_error + json" where
  "create_color_json light_hex dark_hex =
     (case hex_to_rgb light_hex of
        Inl e \<Rightarrow> Inl e
      | Inr (light_r, light_g, light_b) \<Rightarrow>
         (case hex_to_rgb dark_hex of
            Inl e \<Rightarrow> Inl e
          | Inr (dark_r, dark_g, dark_b) \<Rightarrow>
              Inr (JObj
                [(''colors'', JList
                   [JObj
                      [(''color'', JObj
                          [(''color-space'', JStr ''srgb''),
                           (''components'', JObj
                              [(''alpha'', JStr ''1.000''),
                               (''blue'', JStr (fmt3 light_b)),
                               (''green'', JStr (fmt3 light_g)),
                               (''red'', JStr (fmt3 light_r))])]),
                       (''idiom'', JStr ''universal'')],
                    JObj
                      [(''appearances'', JList
                          [JObj [(''appearance'', JStr ''luminosity''),
                                 (''value'', JStr ''dark'')] ]),
                       (''color'', JObj
                          [(''color-space'', JStr ''srgb''),
                           (''components'', JObj
                              [(''alpha'', JStr ''1.000''),
                               (''blue'', JStr (fmt3 dark_b)),
                               (''green'', JStr (fmt3 dark_g)),
                               (''red'', JStr (fmt3 dark_r))])]),
                       (''idiom'', JStr ''universal'')] ]),
                 (''info'', JObj [(''author'', JStr ''xcode''), (''version'', JInt 1)])])))"

definition unpack3 :: "'a list \<Rightarrow> py_error + ('a \<times> 'a \<times> 'a)" where
  \<comment> \<open>\<^verbatim>\<open>a, b, c = t\<close> raises \<^verbatim>\<open>ValueError\<close> unless \<^verbatim>\<open>t\<close> has three items.\<close>
  "unpack3 t = (case t of [a, b, c] \<Rightarrow> Inr (a, b, c) | _ \<Rightarrow> Inl ValueError)"

definition cc_data :: "string \<Rightarrow> string \<Rightarrow> py_error + json" where
  \<comment> \<open>Lines 39 to 70 of \<^verbatim>\<open>create_colors.py\<close>: the two conversions and the dict \<^verbatim>\<open>data\<close>.\<close>
  "cc_data light dark =
     (case cc_hex_to_rgb light of
        Inl e \<Rightarrow> Inl e
      | Inr t1 \<Rightarrow>
         (case unpack3 t1 of
            Inl e \<Rightarrow> Inl e
          | Inr (lr, lg, lb) \<Rightarrow>
             (case cc_hex_to_rgb dark of
                Inl e \<Rightarrow> Inl e
              | Inr t2 \<Rightarrow>
                 (case unpack3 t2 of
                    Inl e \<Rightarrow> Inl e
                  | Inr (dr, dg, db) \<Rightarrow>
                      Inr (JObj
                        [(''colors'', JList
                           [JObj
                              [(''color'', JObj
                                  [(''color-space'', JStr ''srgb''),
                                   (''components'', JObj
                                      [(''alpha'', JStr ''1.000''),
                                       (''blue'', JStr (fmt3 lb)),
                                       (''green'', JStr (fmt3 lg)),
                                       (''red'', JStr (fmt3 lr))])]),
                               (''idiom'', JStr ''universal'')],
                            JObj
                              [(''appearances'', JList
                                  [JObj [(''appearance'', JStr ''luminosity''),
                                         (''value'', JStr ''dark'')] ]),
                               (''color'', JObj
                                  [(''color-space'', JStr ''srgb''),
                                   (''components'', JObj
                                      [(''alpha'', JStr ''1.000''),
                                       (''blue'', JStr (fmt3 db)),
                                       (''green'', JStr (fmt3 dg)),
                                       (''red'', JStr (fmt3 dr))])]),
                               (''idiom'', JStr ''universal'')] ]),
                         (''info'', JObj [(''author'', JStr ''xcode''),
                                          (''version'', JInt 1)])])))))"

section \<open>The file system and standard output\<close>

text \<open>
  A path is its list of components below the working directory, which is the empty list.
  A file system maps a path to what is there: a directory, or a regular file holding
  either the value \<^verbatim>\<open>json.dump\<close> last wrote into it or some other content.  The text
  layout of \<^verbatim>\<open>json.dump(..., indent=2)\<close>, symbolic links, permissions and device
  errors are not modelled.  The log records, in order, each directory the run created and
  each file it opened for writing; standard output is the list of printed lines, emoji in
  UTF-8.
\<close>

type_synonym path = "string list"

datatype node = Dir | File "json option"

datatype event = Mkdir path | Write path

record world =
  fs :: "path \<Rightarrow> node option"
  log :: "event list"
  out :: "string list"

definition node_at :: "world \<Rightarrow> path \<Rightarrow> node option" where
  "node_at w p = (if p = [] then Some Dir else fs w p)"


definition print :: "string \<Rightarrow> world \<Rightarrow> world" where
  "print s w = w\<lparr>out := out w @ [s]\<rparr>"



definition assets_path :: path where
  "assets_path = [''GutCheck'', ''Assets.xcassets'']"


definition colorset_path :: "string \<Rightarrow> path" where
  \<comment> \<open>\<^verbatim>\<open>assets_path / f"{name}.colorset"\<close>; no name of either table contains a slash.\<close>
  "colorset_path name = assets_path @ [name @ ''.colorset'']"

definition contents_path :: "string \<Rightarrow> path" where
  "contents_path name = colorset_path name @ [''Contents.json'']"


section \<open>\<^verbatim>\<open>generate_color_assets.py\<close>: \<^verbatim>\<open>main\<close>\<close>




section \<open>\<^verbatim>\<open>create_colors.py\<close>: the module body\<close>





section \<open>Notions the properties are stated with\<close>

definition hexdigits :: string where
  "hexdigits = ''0123456789abcdefABCDEF''"

definition is_hexdigit :: "char \<Rightarrow> bool" where
  "is_hexdigit c = (c \<in> set hexdigits)"

definition base16 :: "string \<Rightarrow> nat" where
  \<comment> \<open>the base-16 value of a string of hexadecimal digits\<close>
  "base16 ds = foldl (\<lambda>a d. 16 * a + the (hex_digit d)) 0 ds"

definition is_hex_color :: "string \<Rightarrow> bool" where
  \<comment> \<open>a string of the form \<^verbatim>\<open>#RRGGBB\<close>\<close>
  "is_hex_color s =
     (case s of
        [] \<Rightarrow> False
      | c # ds \<Rightarrow> c = CHR ''#'' \<and> length ds = 6 \<and> list_all is_hexdigit ds)"

definition accepted_slice :: "string \<Rightarrow> bool" where
  \<comment> \<open>the strings of at most two characters that \<^verbatim>\<open>int(., 16)\<close> accepts\<close>
  "accepted_slice t =
     (case t of
        [a] \<Rightarrow> is_hexdigit a
      | [a, b] \<Rightarrow>
          (is_hexdigit a \<and> (is_hexdigit b \<or> py_isspace b))
          \<or> (is_hexdigit b \<and> (py_isspace a \<or> a = CHR ''+'' \<or> a = CHR ''-''))
      | _ \<Rightarrow> False)"




definition contents_schema :: "string \<times> string \<times> string \<Rightarrow> string \<times> string \<times> string \<Rightarrow> json" where
  \<comment> \<open>the fixed layout of a colour set, given the rendered (red, green, blue) of the light
      and of the dark variant\<close>
  "contents_schema light dark =
     (case (light, dark) of ((lr, lg, lb), (dr, dg, db)) \<Rightarrow>
      JObj
        [(''colors'', JList
           [JObj
              [(''color'', JObj
                  [(''color-space'', JStr ''srgb''),
                   (''components'', JObj
                      [(''alpha'', JStr ''1.000''), (''blue'', JStr lb),
                       (''green'', JStr lg), (''red'', JStr lr)])]),
               (''idiom'', JStr ''universal'')],
            JObj
              [(''appearances'', JList
                  [JObj [(''appearance'', JStr ''luminosity''), (''value'', JStr ''dark'')] ]),
               (''color'', JObj
                  [(''color-space'', JStr ''srgb''),
                   (''components'', JObj
                      [(''alpha'', JStr ''1.000''), (''blue'', JStr db),
                       (''green'', JStr dg), (''red'', JStr dr)])]),
               (''idiom'', JStr ''universal'')] ]),
         (''info'', JObj [(''author'', JStr ''xcode''), (''version'', JInt 1)])])"

fun jget :: "string \<Rightarrow> json \<Rightarrow> json option" where
  "jget k (JObj kvs) = map_of kvs k"
| "jget k (JStr s) = None"
| "jget k (JInt i) = None"
| "jget k (JList js) = None"

definition alpha_of :: "json \<Rightarrow> json option" where
  \<comment> \<open>\<^verbatim>\<open>entry["color"]["components"]["alpha"]\<close>\<close>
  "alpha_of entry =
     (case jget ''color'' entry of
        None \<Rightarrow> None
      | Some c \<Rightarrow> (case jget ''components'' c of None \<Rightarrow> None | Some m \<Rightarrow> jget ''alpha'' m))"

definition alphas :: "json \<Rightarrow> json option list" where
  \<comment> \<open>the alpha component of every entry of \<^verbatim>\<open>j["colors"]\<close>\<close>
  "alphas j = (case jget ''colors'' j of Some (JList es) \<Rightarrow> map alpha_of es | _ \<Rightarrow> [])"

definition gutcheck_name :: "string \<Rightarrow> string" where
  \<comment> \<open>the naming convention of \<^verbatim>\<open>create_colors.py\<close>, read off the two tables: the prefix
      \<^verbatim>\<open>GutCheck\<close>, and a final \<^verbatim>\<open>Color\<close> dropped\<close>
  "gutcheck_name n =
     ''GutCheck'' @ (if suffix ''Color'' n then take (length n - 5) n else n)"

definition writes :: "event list \<Rightarrow> path list" where
  "writes es = concat (map (\<lambda>e. case e of Write p \<Rightarrow> [p] | Mkdir p \<Rightarrow> []) es)"







section \<open>Digits and \<^verbatim>\<open>int(., 16)\<close>\<close>

lemma hex_digit_Some: "hex_digit c = Some v \<Longrightarrow> is_hexdigit c \<and> v < 16"
  unfolding hex_digit_def is_hexdigit_def hexdigits_def
  by (auto split: if_splits)

lemma is_hexdigit_hex_digit: "is_hexdigit c \<Longrightarrow> \<exists>v. hex_digit c = Some v"
  unfolding hex_digit_def is_hexdigit_def hexdigits_def
  by auto

lemma is_hexdigit_iff: "is_hexdigit c \<longleftrightarrow> hex_digit c \<noteq> None"
  using hex_digit_Some is_hexdigit_hex_digit by fastforce

lemma hexdigit_plain:
  "is_hexdigit c \<Longrightarrow>
     \<not> py_isspace c \<and> c \<noteq> CHR ''+'' \<and> c \<noteq> CHR ''-'' \<and> c \<noteq> CHR ''_''
     \<and> c \<noteq> CHR ''x'' \<and> c \<noteq> CHR ''X'' \<and> c \<noteq> CHR ''#''"
  unfolding is_hexdigit_def hexdigits_def py_isspace_def by auto

lemma space_plain:
  "py_isspace c \<Longrightarrow> c \<noteq> CHR ''+'' \<and> c \<noteq> CHR ''-'' \<and> c \<noteq> CHR ''_'' \<and> c \<noteq> CHR ''0''
     \<and> c \<noteq> CHR ''x'' \<and> c \<noteq> CHR ''X'' \<and> c \<noteq> CHR ''#''"
  unfolding py_isspace_def by auto

lemma py_int16_pair:
  assumes "hex_digit a = Some x" "hex_digit b = Some y"
  shows "py_int16 [a, b] = Inr (int (16 * x + y))"
proof -
  have a: "is_hexdigit a" and b: "is_hexdigit b"
    using assms hex_digit_Some by blast+
  show ?thesis
    using hexdigit_plain[OF a] hexdigit_plain[OF b] assms
    by (simp add: py_int16_def skip_sign_def skip_prefix_def)
qed

lemma py_int16_error: "py_int16 t = Inl e \<Longrightarrow> e = ValueError"
  unfolding py_int16_def
  by (auto simp: Let_def split: prod.splits option.splits if_splits)

lemma py_int16_nil: "py_int16 [] = Inl ValueError"
  by (simp add: py_int16_def skip_sign_def skip_prefix_def)

lemma py_int16_digit: "hex_digit a = Some x \<Longrightarrow> py_int16 [a] = Inr (int x)"
  using hexdigit_plain[of a] hex_digit_Some[of a x]
  by (simp add: py_int16_def skip_sign_def skip_prefix_def)

lemma py_int16_nondigit: "hex_digit a = None \<Longrightarrow> py_int16 [a] = Inl ValueError"
  by (simp add: py_int16_def skip_sign_def skip_prefix_def Let_def split: prod.splits)

lemma py_int16_single: "(\<exists>n. py_int16 [a] = Inr n) \<longleftrightarrow> is_hexdigit a"
proof (cases "hex_digit a")
  case None
  then show ?thesis using py_int16_nondigit[OF None] by (simp add: is_hexdigit_iff)
next
  case (Some x)
  then show ?thesis using py_int16_digit[OF Some] by (simp add: is_hexdigit_iff)
qed

lemma py_int16_skip_space: "py_isspace a \<Longrightarrow> py_int16 (a # t) = py_int16 t"
  by (simp add: py_int16_def)

lemma space_not_digit: "py_isspace b \<Longrightarrow> hex_digit b = None"
  using hexdigit_plain[of b] is_hexdigit_iff[of b] by auto

lemma py_int16_digit_space:
  assumes "hex_digit a = Some x" "py_isspace b"
  shows "py_int16 [a, b] = Inr (int x)"
proof -
  have "is_hexdigit a" using assms(1) hex_digit_Some by blast
  then show ?thesis
    using hexdigit_plain[of a] space_plain[OF assms(2)] space_not_digit[OF assms(2)] assms
    by (simp add: py_int16_def skip_sign_def skip_prefix_def)
qed

lemma py_int16_digit_other:
  assumes "hex_digit a = Some x" "hex_digit b = None" "\<not> py_isspace b"
  shows "py_int16 [a, b] = Inl ValueError"
proof -
  have "is_hexdigit a" using assms(1) hex_digit_Some by blast
  then show ?thesis
    using hexdigit_plain[of a] assms
    by (simp add: py_int16_def skip_sign_def skip_prefix_def)
qed

lemma py_int16_sign_digit:
  assumes "a = CHR ''+'' \<or> a = CHR ''-''" "hex_digit b = Some y"
  shows "py_int16 [a, b] = Inr (if a = CHR ''-'' then - int y else int y)"
proof -
  have b: "is_hexdigit b" using assms(2) hex_digit_Some by blast
  have sp: "\<not> py_isspace a" using assms(1) by (auto simp: py_isspace_def)
  have sk: "skip_sign [a, b] = (a = CHR ''-'', [b])"
    using assms(1) by (auto simp: skip_sign_def)
  show ?thesis
    using hexdigit_plain[OF b] assms(2) sp
    by (simp add: py_int16_def sk skip_prefix_def)
qed

lemma py_int16_sign_other:
  assumes "a = CHR ''+'' \<or> a = CHR ''-''" "hex_digit b = None"
  shows "py_int16 [a, b] = Inl ValueError"
proof -
  have sp: "\<not> py_isspace a" using assms(1) by (auto simp: py_isspace_def)
  have sk: "skip_sign [a, b] = (a = CHR ''-'', [b])"
    using assms(1) by (auto simp: skip_sign_def)
  show ?thesis
    using assms(2) sp
    by (simp add: py_int16_def sk skip_prefix_def)
qed

lemma py_int16_other:
  assumes "hex_digit a = None" "\<not> py_isspace a" "a \<noteq> CHR ''+''" "a \<noteq> CHR ''-''"
  shows "py_int16 (a # t) = Inl ValueError"
proof -
  have "a \<noteq> CHR ''0''" using assms(1) by (auto simp: hex_digit_def)
  then have "skip_prefix (a # t) = a # t"
    by (simp add: skip_prefix_def split: list.splits)
  then show ?thesis
    using assms by (simp add: py_int16_def skip_sign_def)
qed

lemma short_cases:
  assumes "length t \<le> 2"
  obtains "t = []" | a where "t = [a]" | a b where "t = [a, b]"
proof (cases t)
  case Nil
  then show ?thesis using that by simp
next
  case (Cons a u)
  note t = Cons
  show ?thesis
  proof (cases u)
    case Nil
    then show ?thesis using t that by simp
  next
    case (Cons b v)
    then have "v = []" using assms t by simp
    then show ?thesis using Cons t that by simp
  qed
qed

lemma py_int16_two: "(\<exists>n. py_int16 [a, b] = Inr n) \<longleftrightarrow> accepted_slice [a, b]"
proof (cases "hex_digit a")
  case (Some x)
  then have a: "is_hexdigit a" by (simp add: is_hexdigit_iff)
  show ?thesis
  proof (cases "hex_digit b")
    case None
    then have nb: "\<not> is_hexdigit b" by (simp add: is_hexdigit_iff)
    show ?thesis
    proof (cases "py_isspace b")
      case True
      then show ?thesis
        using py_int16_digit_space[OF Some True] a by (simp add: accepted_slice_def)
    next
      case False
      then show ?thesis
        using py_int16_digit_other[OF Some None False] a nb by (simp add: accepted_slice_def)
    qed
  next
    case (Some y)
    then have "is_hexdigit b" by (simp add: is_hexdigit_iff)
    then show ?thesis
      using py_int16_pair[OF \<open>hex_digit a = Some x\<close> Some] a by (simp add: accepted_slice_def)
  qed
next
  case None
  then have na: "\<not> is_hexdigit a" by (simp add: is_hexdigit_iff)
  show ?thesis
  proof (cases "py_isspace a")
    case True
    then show ?thesis
      using py_int16_skip_space[OF True, of "[b]"] py_int16_single[of b] na
      by (simp add: accepted_slice_def)
  next
    case False
    show ?thesis
    proof (cases "a = CHR ''+'' \<or> a = CHR ''-''")
      case True
      show ?thesis
      proof (cases "hex_digit b")
        case None
        then show ?thesis
          using py_int16_sign_other[OF True None] na by (simp add: accepted_slice_def is_hexdigit_iff)
      next
        case (Some y)
        then show ?thesis
          using py_int16_sign_digit[OF True Some] na True by (simp add: accepted_slice_def is_hexdigit_iff)
      qed
    next
      case ns: False
      then show ?thesis
        using py_int16_other[OF None False, of "[b]"] na False by (simp add: accepted_slice_def)
    qed
  qed
qed

lemma py_int16_short:
  assumes "length t \<le> 2"
  shows "(\<exists>n. py_int16 t = Inr n) \<longleftrightarrow> accepted_slice t"
  using assms
proof (cases t rule: short_cases)
  case 1
  then show ?thesis by (simp add: py_int16_nil accepted_slice_def)
next
  case (2 a)
  then show ?thesis using py_int16_single[of a] by (simp add: accepted_slice_def)
next
  case (3 a b)
  then show ?thesis using py_int16_two[of a b] by simp
qed

section \<open>\<^verbatim>\<open>hex_to_rgb\<close>\<close>

lemma lstrip_hash_replicate: "lstrip_hash (replicate n CHR ''#'' @ s) = lstrip_hash s"
  by (induction n) (simp_all add: lstrip_hash_def)

lemma cc_hex_to_rgb_eq:
  "cc_hex_to_rgb s = (case hex_to_rgb s of Inl e \<Rightarrow> Inl e | Inr (r, g, b) \<Rightarrow> Inr [r, g, b])"
  by (simp add: cc_hex_to_rgb_def hex_to_rgb_def Let_def split: sum.splits)

lemma hex_to_rgb_error: "hex_to_rgb s = Inl e \<Longrightarrow> e = ValueError"
  by (auto simp: hex_to_rgb_def Let_def split: sum.splits dest: py_int16_error)

lemma len6: "length ds = 6 \<Longrightarrow> \<exists>a b c d e f. ds = [a, b, c, d, e, f]"
  by (auto simp: eval_nat_numeral length_Suc_conv)

lemma base16_pair:
  "hex_digit a = Some x \<Longrightarrow> hex_digit b = Some y \<Longrightarrow> base16 [a, b] = 16 * x + y"
  by (simp add: base16_def)

lemma hex_to_rgb_six:
  assumes "hex_digit a = Some x1" "hex_digit b = Some x2" "hex_digit c = Some x3"
    "hex_digit d = Some x4" "hex_digit e = Some x5" "hex_digit f = Some x6"
  shows "hex_to_rgb (replicate n CHR ''#'' @ a # b # c # d # e # f # rest) =
           Inr (div255 (int (16 * x1 + x2)), div255 (int (16 * x3 + x4)), div255 (int (16 * x5 + x6)))"
proof -
  have "is_hexdigit a" using assms(1) by (simp add: is_hexdigit_iff)
  then have "a \<noteq> CHR ''#''" using hexdigit_plain by blast
  then have "lstrip_hash (replicate n CHR ''#'' @ a # b # c # d # e # f # rest) = a # b # c # d # e # f # rest"
    by (simp add: lstrip_hash_replicate) (simp add: lstrip_hash_def)
  then show ?thesis
    using py_int16_pair[OF assms(1,2)] py_int16_pair[OF assms(3,4)] py_int16_pair[OF assms(5,6)]
    by (simp add: hex_to_rgb_def slice2_def)
qed


text \<open>
  C10: for every string \<open>s\<close>, \<^verbatim>\<open>hex_to_rgb("#" + s) = hex_to_rgb(s)\<close>, and prepending any
  number of \<^verbatim>\<open>#\<close> characters does not change the result (a triple or the exception), in
  both scripts.
\<close>

theorem hex_to_rgb_leading_hash:
  "hex_to_rgb (CHR ''#'' # s) = hex_to_rgb s
   \<and> cc_hex_to_rgb (CHR ''#'' # s) = cc_hex_to_rgb s
   \<and> hex_to_rgb (replicate n CHR ''#'' @ s) = hex_to_rgb s
   \<and> cc_hex_to_rgb (replicate n CHR ''#'' @ s) = cc_hex_to_rgb s"
proof -
  have one: "lstrip_hash (CHR ''#'' # s) = lstrip_hash s"
    by (simp add: lstrip_hash_def)
  have many: "lstrip_hash (replicate n CHR ''#'' @ s) = lstrip_hash s"
    by (rule lstrip_hash_replicate)
  show ?thesis
    by (simp add: hex_to_rgb_def cc_hex_to_rgb_def one many)
qed

text \<open>
  C2: on every string of the form \<^verbatim>\<open>#RRGGBB\<close> (six hexadecimal digits after the \<^verbatim>\<open>#\<close>),
  \<^verbatim>\<open>hex_to_rgb\<close> of either script returns (R/255, G/255, B/255), where R, G and B are the
  base-16 values of the first, second and third digit pair, and each component lies in the
  closed interval from 0 to 1.
\<close>

theorem hex_to_rgb_RRGGBB:
  assumes "is_hex_color s"
  shows "let R = base16 (take 2 (drop 1 s));
             G = base16 (take 2 (drop 3 s));
             B = base16 (take 2 (drop 5 s));
             r = rat_of_nat R / 255; g = rat_of_nat G / 255; b = rat_of_nat B / 255
         in hex_to_rgb s = Inr (r, g, b)
            \<and> cc_hex_to_rgb s = Inr [r, g, b]
            \<and> 0 \<le> r \<and> r \<le> 1 \<and> 0 \<le> g \<and> g \<le> 1 \<and> 0 \<le> b \<and> b \<le> 1"
proof -
  obtain ds where s: "s = CHR ''#'' # ds" and len: "length ds = 6"
    and hex: "list_all is_hexdigit ds"
    using assms by (auto simp: is_hex_color_def split: list.splits)
  obtain a b c d e f where ds: "ds = [a, b, c, d, e, f]"
    using len6[OF len] by blast
  obtain x1 x2 x3 x4 x5 x6 where
    v: "hex_digit a = Some x1" "hex_digit b = Some x2" "hex_digit c = Some x3"
       "hex_digit d = Some x4" "hex_digit e = Some x5" "hex_digit f = Some x6"
  proof -
    have "is_hexdigit a" "is_hexdigit b" "is_hexdigit c" "is_hexdigit d" "is_hexdigit e"
      "is_hexdigit f"
      using hex ds by simp_all
    then show ?thesis
      using that is_hexdigit_hex_digit by metis
  qed
  have bound: "x1 < 16" "x2 < 16" "x3 < 16" "x4 < 16" "x5 < 16" "x6 < 16"
    using v hex_digit_Some by blast+
  have h: "hex_to_rgb s =
      Inr (div255 (int (16 * x1 + x2)), div255 (int (16 * x3 + x4)), div255 (int (16 * x5 + x6)))"
    using hex_to_rgb_six[OF v, of 1 "[]"] by (simp add: s ds)
  have R: "base16 (take 2 (drop 1 s)) = 16 * x1 + x2"
    and G: "base16 (take 2 (drop 3 s)) = 16 * x3 + x4"
    and B: "base16 (take 2 (drop 5 s)) = 16 * x5 + x6"
    using v by (simp_all add: s ds base16_def)
  have d: "\<And>k. div255 (int k) = rat_of_nat k / 255"
    by (simp add: div255_def)
  have u: "\<And>x y :: nat. x < 16 \<Longrightarrow> y < 16 \<Longrightarrow>
              0 \<le> rat_of_nat (16 * x + y) / 255 \<and> rat_of_nat (16 * x + y) / 255 \<le> 1"
  proof -
    fix x y :: nat
    assume "x < 16" "y < 16"
    then have "16 * x + y \<le> 255" by simp
    then have "rat_of_nat (16 * x + y) \<le> 255"
      by (metis of_nat_le_iff of_nat_numeral)
    then show "0 \<le> rat_of_nat (16 * x + y) / 255 \<and> rat_of_nat (16 * x + y) / 255 \<le> 1"
      by simp
  qed
  show ?thesis
    unfolding Let_def R G B cc_hex_to_rgb_eq h d
    using u[OF bound(1,2)] u[OF bound(3,4)] u[OF bound(5,6)] by simp
qed

theorem hex_to_rgb_RRGGBB_witness:
  "is_hex_color ''#0891B2''
   \<and> hex_to_rgb ''#0891B2'' = Inr (8 / 255, 145 / 255, 178 / 255)
   \<and> cc_hex_to_rgb ''#0891B2'' = Inr [8 / 255, 145 / 255, 178 / 255]"
proof -
  have h: "is_hex_color ''#0891B2''"
    by (simp add: is_hex_color_def is_hexdigit_def hexdigits_def)
  show ?thesis
    using h hex_to_rgb_RRGGBB[OF h]
    by (simp add: Let_def base16_def hex_digit_def)
qed

section \<open>Rounding and the format\<close>

lemma round_half_even_quot:
  assumes "0 < l" "odd l"
  shows "round_half_even (of_int k / of_int l) = k div l + (if 2 * (k mod l) < l then 0 else 1)"
proof -
  have q: "\<lfloor>(of_int k / of_int l :: rat)\<rfloor> = k div l"
    by (simp add: floor_divide_of_int_eq)
  have "(of_int k :: rat) = of_int (k div l) * of_int l + of_int (k mod l)"
    by (metis div_mult_mod_eq of_int_add of_int_mult)
  then have r: "(of_int k / of_int l :: rat) - of_int (k div l) = of_int (k mod l) / of_int l"
    using assms(1) by (simp add: field_simps)
  have lt: "(of_int (k mod l) / of_int l < (1 / 2 :: rat)) = (2 * (k mod l) < l)"
  proof -
    have "(of_int (k mod l) / of_int l < (1 / 2 :: rat))
            = ((of_int (2 * (k mod l)) :: rat) < of_int l)"
      using assms(1) by (simp add: field_simps)
    then show ?thesis by (simp only: of_int_less_iff)
  qed
  have ne: "2 * (k mod l) \<noteq> l"
    using assms(2) by (metis dvd_triv_left)
  have gt: "((1 / 2 :: rat) < of_int (k mod l) / of_int l) = (l < 2 * (k mod l))"
  proof -
    have "((1 / 2 :: rat) < of_int (k mod l) / of_int l)
            = ((of_int l :: rat) < of_int (2 * (k mod l)))"
      using assms(1) by (simp add: field_simps)
    then show ?thesis by (simp only: of_int_less_iff)
  qed
  show ?thesis
    unfolding round_half_even_def Let_def q r lt gt using ne by auto
qed

lemma no_tie_255: "1 / 510 \<le> \<bar>rat_of_int n * 1000 / 255 - (rat_of_int k + 1 / 2)\<bar>"
proof -
  define d where "d = 2000 * n - 255 * (2 * k + 1)"
  have "d \<noteq> 0"
  proof
    assume "d = 0"
    then have "2 * (1000 * n - 255 * k) = 255" by (simp add: d_def)
    then have "even (255 :: int)" by (metis dvd_triv_left)
    then show False by simp
  qed
  then have "1 \<le> \<bar>d\<bar>" by simp
  then have one: "(1 :: rat) \<le> \<bar>rat_of_int d\<bar>"
    by (metis of_int_1 of_int_abs of_int_le_iff)
  have eq: "rat_of_int n * 1000 / 255 - (rat_of_int k + 1 / 2) = rat_of_int d / 510"
    by (simp add: d_def field_simps)
  have a: "\<bar>rat_of_int d / 510\<bar> = \<bar>rat_of_int d\<bar> / 510"
    by simp
  have b: "1 / 510 \<le> \<bar>rat_of_int d\<bar> / 510"
    using one by simp
  show ?thesis
    unfolding eq a by (rule b)
qed

lemma str_nat_digit: "n < 10 \<Longrightarrow> str_nat n = [digit_char n]"
  by (simp add: str_nat.simps)

lemma fmt3_div255:
  assumes "0 \<le> n"
  shows "fmt3 (div255 n) =
     (let m = nat (200 * n div 51 + (if 2 * (200 * n mod 51) < 51 then 0 else 1)) in
      str_nat (m div 1000) @ [CHR ''.'',
        digit_char (m div 100 mod 10), digit_char (m div 10 mod 10), digit_char (m mod 10)])"
proof -
  have nn: "\<not> div255 n < 0" using assms by (simp add: div255_def)
  have e: "\<bar>div255 n\<bar> * 1000 = rat_of_int (200 * n) / rat_of_int 51"
    using assms by (simp add: div255_def)
  have r: "round_half_even (\<bar>div255 n\<bar> * 1000)
      = 200 * n div 51 + (if 2 * (200 * n mod 51) < 51 then 0 else 1)"
    unfolding e by (rule round_half_even_quot) simp_all
  show ?thesis
    unfolding fmt3_def r using nn by (simp add: Let_def)
qed








section \<open>The JSON structure and the tables\<close>

lemma create_color_json_schema:
  "create_color_json l d =
     (case hex_to_rgb l of
        Inl e \<Rightarrow> Inl e
      | Inr (lr, lg, lb) \<Rightarrow>
         (case hex_to_rgb d of
            Inl e \<Rightarrow> Inl e
          | Inr (dr, dg, db) \<Rightarrow>
              Inr (contents_schema (fmt3 lr, fmt3 lg, fmt3 lb) (fmt3 dr, fmt3 dg, fmt3 db))))"
  by (simp add: create_color_json_def contents_schema_def split: sum.splits prod.splits)

lemma cc_data_eq: "cc_data l d = create_color_json l d"
  by (simp add: cc_data_def create_color_json_def cc_hex_to_rgb_eq unpack3_def
      split: sum.splits prod.splits)

lemma alphas_schema: "alphas (contents_schema a b) = [Some (JStr ''1.000''), Some (JStr ''1.000'')]"
  by (simp add: alphas_def alpha_of_def contents_schema_def split: prod.splits)

lemma hex_color_rgb:
  assumes "is_hex_color s"
  shows "\<exists>R G B. R \<le> 255 \<and> G \<le> 255 \<and> B \<le> 255
           \<and> hex_to_rgb s = Inr (div255 (int R), div255 (int G), div255 (int B))"
proof -
  obtain ds where s: "s = CHR ''#'' # ds" and len: "length ds = 6"
    and hex: "list_all is_hexdigit ds"
    using assms by (auto simp: is_hex_color_def split: list.splits)
  obtain a b c d e f where ds: "ds = [a, b, c, d, e, f]"
    using len6[OF len] by blast
  obtain x1 x2 x3 x4 x5 x6 where
    v: "hex_digit a = Some x1" "hex_digit b = Some x2" "hex_digit c = Some x3"
       "hex_digit d = Some x4" "hex_digit e = Some x5" "hex_digit f = Some x6"
  proof -
    have "is_hexdigit a" "is_hexdigit b" "is_hexdigit c" "is_hexdigit d" "is_hexdigit e"
      "is_hexdigit f"
      using hex ds by simp_all
    then show ?thesis
      using that is_hexdigit_hex_digit by metis
  qed
  have bound: "x1 < 16" "x2 < 16" "x3 < 16" "x4 < 16" "x5 < 16" "x6 < 16"
    using v hex_digit_Some by blast+
  have h: "hex_to_rgb s =
      Inr (div255 (int (16 * x1 + x2)), div255 (int (16 * x3 + x4)), div255 (int (16 * x5 + x6)))"
    using hex_to_rgb_six[OF v, of 1 "[]"] by (simp add: s ds)
  have "16 * x1 + x2 \<le> 255" "16 * x3 + x4 \<le> 255" "16 * x5 + x6 \<le> 255"
    using bound by simp_all
  then show ?thesis using h by blast
qed



lemma primary_json:
  "create_color_json ''#0891B2'' ''#06B6D4'' =
     Inr (contents_schema (''0.031'', ''0.569'', ''0.698'') (''0.024'', ''0.714'', ''0.831''))"
proof -
  have l: "hex_to_rgb ''#0891B2'' = Inr (div255 8, div255 145, div255 178)"
    by (simp add: hex_to_rgb_def lstrip_hash_def slice2_def py_int16_def skip_sign_def
        skip_prefix_def py_isspace_def hex_digit_def)
  have d: "hex_to_rgb ''#06B6D4'' = Inr (div255 6, div255 182, div255 212)"
    by (simp add: hex_to_rgb_def lstrip_hash_def slice2_def py_int16_def skip_sign_def
        skip_prefix_def py_isspace_def hex_digit_def)
  show ?thesis
    by (simp add: create_color_json_schema l d fmt3_div255 str_nat_digit digit_char_def)
qed

text \<open>
  C5: for every pair of valid \<^verbatim>\<open>#RRGGBB\<close> strings, \<^verbatim>\<open>create_color_json\<close> of
  \<^verbatim>\<open>generate_color_assets.py\<close> returns a dictionary, and it is equal to the dictionary
  \<^verbatim>\<open>data\<close> that the loop body of \<^verbatim>\<open>create_colors.py\<close> builds for the same pair.
\<close>

theorem json_construction_agrees:
  assumes "is_hex_color light_hex" "is_hex_color dark_hex"
  shows "\<exists>j. create_color_json light_hex dark_hex = Inr j \<and> cc_data light_hex dark_hex = Inr j"
proof -
  obtain lt where l: "hex_to_rgb light_hex = Inr lt"
    using hex_color_rgb[OF assms(1)] by blast
  obtain dt where d: "hex_to_rgb dark_hex = Inr dt"
    using hex_color_rgb[OF assms(2)] by blast
  have "\<exists>j. create_color_json light_hex dark_hex = Inr j"
    by (simp add: create_color_json_schema l d split: prod.splits)
  then show ?thesis by (simp add: cc_data_eq)
qed

theorem json_construction_agrees_witness:
  "is_hex_color ''#0891B2'' \<and> is_hex_color ''#06B6D4''
   \<and> (\<exists>j. create_color_json ''#0891B2'' ''#06B6D4'' = Inr j
            \<and> cc_data ''#0891B2'' ''#06B6D4'' = Inr j)"
proof -
  have l: "is_hex_color ''#0891B2''" and d: "is_hex_color ''#06B6D4''"
    by (simp_all add: is_hex_color_def is_hexdigit_def hexdigits_def)
  show ?thesis
    using l d json_construction_agrees[OF l d] by simp
qed

text \<open>
  C6: the two \<^verbatim>\<open>COLORS\<close> tables have 17 entries each and, position by position, the same
  (light, dark) pair of hex values; the names at each position differ by the naming
  convention only (\<^verbatim>\<open>PrimaryColor\<close> against \<^verbatim>\<open>GutCheckPrimary\<close>).
\<close>

theorem tables_agree:
  "length COLORS = 17 \<and> length cc_COLORS = 17
   \<and> map snd COLORS = map snd cc_COLORS
   \<and> map fst cc_COLORS = map gutcheck_name (map fst COLORS)"
  by (simp add: COLORS_def cc_COLORS_def gutcheck_name_def suffix_def)

text \<open>
  C8: in every generated colour asset the \<^verbatim>\<open>alpha\<close> component of the light entry and of the
  dark entry is the string \<^verbatim>\<open>1.000\<close>, whatever the hex values; this holds for the
  dictionary of either script.
\<close>

theorem alpha_constant:
  "(create_color_json light_hex dark_hex = Inr j
      \<longrightarrow> alphas j = [Some (JStr ''1.000''), Some (JStr ''1.000'')])
   \<and> (cc_data light_hex dark_hex = Inr j
      \<longrightarrow> alphas j = [Some (JStr ''1.000''), Some (JStr ''1.000'')])"
proof -
  have "create_color_json light_hex dark_hex = Inr j
          \<Longrightarrow> alphas j = [Some (JStr ''1.000''), Some (JStr ''1.000'')]"
    by (auto simp: create_color_json_schema alphas_schema split: sum.splits prod.splits)
  then show ?thesis by (simp add: cc_data_eq)
qed

theorem alpha_constant_witness:
  "create_color_json ''#0891B2'' ''#06B6D4'' =
     Inr (contents_schema (''0.031'', ''0.569'', ''0.698'') (''0.024'', ''0.714'', ''0.831''))
   \<and> cc_data ''#0891B2'' ''#06B6D4'' =
     Inr (contents_schema (''0.031'', ''0.569'', ''0.698'') (''0.024'', ''0.714'', ''0.831''))
   \<and> alphas (contents_schema (''0.031'', ''0.569'', ''0.698'') (''0.024'', ''0.714'', ''0.831''))
       = [Some (JStr ''1.000''), Some (JStr ''1.000'')]"
  using alpha_constant[of "''#0891B2''" "''#06B6D4''"
      "contents_schema (''0.031'', ''0.569'', ''0.698'') (''0.024'', ''0.714'', ''0.831'')"]
    primary_json
  by (simp add: cc_data_eq)

section \<open>Where \<^verbatim>\<open>hex_to_rgb\<close> returns\<close>

lemma slice2_length: "length (slice2 h i) \<le> 2"
  by (simp add: slice2_def)

lemma hex_to_rgb_returns_iff:
  "(\<exists>t. hex_to_rgb s = Inr t) \<longleftrightarrow>
     accepted_slice (slice2 (lstrip_hash s) 0) \<and> accepted_slice (slice2 (lstrip_hash s) 2)
     \<and> accepted_slice (slice2 (lstrip_hash s) 4)"
proof -
  define h where "h = lstrip_hash s"
  have "(\<exists>t. hex_to_rgb s = Inr t) \<longleftrightarrow>
      (\<exists>r. py_int16 (slice2 h 0) = Inr r) \<and> (\<exists>g. py_int16 (slice2 h 2) = Inr g)
      \<and> (\<exists>b. py_int16 (slice2 h 4) = Inr b)"
    by (auto simp: hex_to_rgb_def h_def[symmetric] split: sum.splits)
  then show ?thesis
    by (simp add: py_int16_short slice2_length h_def)
qed

lemma hex_to_rgb_cases: "(\<exists>t. hex_to_rgb s = Inr t) \<or> hex_to_rgb s = Inl ValueError"
  by (cases "hex_to_rgb s") (auto dest: hex_to_rgb_error)

lemma six_cases: "6 \<le> length h \<Longrightarrow> \<exists>a b c d e f r. h = a # b # c # d # e # f # r"
  by (auto simp: eval_nat_numeral Suc_le_length_iff)

lemma accepted_pair: "is_hexdigit a \<Longrightarrow> is_hexdigit b \<Longrightarrow> accepted_slice [a, b]"
  by (simp add: accepted_slice_def)

text \<open>
  C9 as the code has it, for every string of code points below 256 (so for every ASCII
  string): \<^verbatim>\<open>hex_to_rgb\<close> returns a triple exactly when \<^verbatim>\<open>int(., 16)\<close> accepts each of the
  slices \<^verbatim>\<open>h[0:2]\<close>, \<^verbatim>\<open>h[2:4]\<close>, \<^verbatim>\<open>h[4:6]\<close> of the stripped string, that is when each is
  one or two hexadecimal digits, or one hexadecimal digit after a sign or next to a
  whitespace character; on every other such string it raises \<^verbatim>\<open>ValueError\<close>.  In
  particular it returns when the first six stripped characters are hexadecimal digits and
  raises when the stripped string has fewer than five characters.  \<^verbatim>\<open>create_colors.py\<close>
  behaves alike.  Strings with a code point from 256 on are outside this statement: there
  \<^verbatim>\<open>int(., 16)\<close> accepts further decimal digits and whitespace characters of Unicode.
\<close>

theorem hex_to_rgb_domain:
  "((\<exists>t. hex_to_rgb s = Inr t) \<longleftrightarrow>
       accepted_slice (slice2 (lstrip_hash s) 0) \<and> accepted_slice (slice2 (lstrip_hash s) 2)
       \<and> accepted_slice (slice2 (lstrip_hash s) 4))
   \<and> ((\<exists>t. hex_to_rgb s = Inr t) \<or> hex_to_rgb s = Inl ValueError)
   \<and> (6 \<le> length (lstrip_hash s) \<and> list_all is_hexdigit (take 6 (lstrip_hash s))
        \<longrightarrow> (\<exists>t. hex_to_rgb s = Inr t))
   \<and> (length (lstrip_hash s) < 5 \<longrightarrow> hex_to_rgb s = Inl ValueError)
   \<and> cc_hex_to_rgb s = (case hex_to_rgb s of Inl e \<Rightarrow> Inl e | Inr (r, g, b) \<Rightarrow> Inr [r, g, b])"
proof -
  have hex6: "\<exists>t. hex_to_rgb s = Inr t"
    if len: "6 \<le> length (lstrip_hash s)"
      and hex: "list_all is_hexdigit (take 6 (lstrip_hash s))"
  proof -
    obtain a b c d e f r where h: "lstrip_hash s = a # b # c # d # e # f # r"
      using six_cases[OF len] by blast
    have "is_hexdigit a" "is_hexdigit b" "is_hexdigit c" "is_hexdigit d" "is_hexdigit e"
      "is_hexdigit f"
      using hex by (simp_all add: h)
    then have "accepted_slice (slice2 (lstrip_hash s) 0) \<and> accepted_slice (slice2 (lstrip_hash s) 2)
        \<and> accepted_slice (slice2 (lstrip_hash s) 4)"
      by (simp add: h slice2_def accepted_pair)
    then show ?thesis
      using hex_to_rgb_returns_iff[of s] by blast
  qed
  have short: "hex_to_rgb s = Inl ValueError" if "length (lstrip_hash s) < 5"
  proof -
    have "slice2 (lstrip_hash s) 4 = []" using that by (simp add: slice2_def)
    then have "\<not> accepted_slice (slice2 (lstrip_hash s) 4)"
      by (simp add: accepted_slice_def)
    then have "\<not> (\<exists>t. hex_to_rgb s = Inr t)"
      using hex_to_rgb_returns_iff[of s] by blast
    then show ?thesis using hex_to_rgb_cases[of s] by blast
  qed
  show ?thesis
    using hex_to_rgb_returns_iff[of s] hex_to_rgb_cases[of s] hex6 short cc_hex_to_rgb_eq[of s]
    by blast
qed

theorem hex_to_rgb_domain_witness:
  "(6 \<le> length (lstrip_hash ''#0891B2'')
      \<and> list_all is_hexdigit (take 6 (lstrip_hash ''#0891B2''))
      \<and> (\<exists>t. hex_to_rgb ''#0891B2'' = Inr t))
   \<and> (length (lstrip_hash ''#1234'') < 5 \<and> hex_to_rgb ''#1234'' = Inl ValueError)"
proof -
  have a: "6 \<le> length (lstrip_hash ''#0891B2'')
      \<and> list_all is_hexdigit (take 6 (lstrip_hash ''#0891B2''))"
    by (simp add: lstrip_hash_def is_hexdigit_def hexdigits_def)
  have b: "length (lstrip_hash ''#1234'') < 5"
    by (simp add: lstrip_hash_def)
  have "\<exists>t. hex_to_rgb ''#0891B2'' = Inr t"
    using hex_to_rgb_domain[of "''#0891B2''"] a by blast
  moreover have "hex_to_rgb ''#1234'' = Inl ValueError"
    using hex_to_rgb_domain[of "''#1234''"] b by blast
  ultimately show ?thesis using a b by blast
qed

theorem hex_to_rgb_domain_counterexample:
  "length (lstrip_hash ''#12345'') < 6
   \<and> hex_to_rgb ''#12345'' = Inr (18 / 255, 52 / 255, 5 / 255)
   \<and> \<not> list_all is_hexdigit (take 6 (lstrip_hash ''#+1 2-3''))
   \<and> hex_to_rgb ''#+1 2-3'' = Inr (1 / 255, 2 / 255, - 3 / 255)"
  by (simp add: hex_to_rgb_def lstrip_hash_def slice2_def py_int16_def skip_sign_def
      skip_prefix_def py_isspace_def hex_digit_def div255_def is_hexdigit_def hexdigits_def)

section \<open>The generated structure\<close>





section \<open>Paths and file operations\<close>

lemma path_facts:
  "colorset_path n \<noteq> []" "contents_path n \<noteq> []" "assets_path \<noteq> []"
  "butlast (colorset_path n) = assets_path" "butlast (contents_path n) = colorset_path n"
  "colorset_path n \<noteq> assets_path" "contents_path n \<noteq> assets_path"
  "colorset_path n \<noteq> contents_path m" "contents_path m \<noteq> colorset_path n"
  "assets_path \<noteq> colorset_path n" "assets_path \<noteq> contents_path n"
  by (simp_all add: colorset_path_def contents_path_def assets_path_def butlast_append)



lemma node_at_print [simp]: "node_at (print s w) p = node_at w p"
  by (simp add: node_at_def print_def)

lemma print_fields [simp]:
  "fs (print s w) = fs w" "log (print s w) = log w" "out (print s w) = out w @ [s]"
  by (simp_all add: print_def)

lemma node_at_path [simp]:
  "node_at w (colorset_path n) = fs w (colorset_path n)"
  "node_at w (contents_path n) = fs w (contents_path n)"
  "node_at w assets_path = fs w assets_path"
  by (simp_all add: node_at_def path_facts)



lemma writes_simps [simp]:
  "writes [] = []" "writes (es @ es2) = writes es @ writes es2"
  "writes [Mkdir p] = []" "writes [Write p] = [p]"
  by (simp_all add: writes_def)










section \<open>The loop of \<^verbatim>\<open>main\<close>\<close>







section \<open>The loop of \<^verbatim>\<open>create_colors.py\<close>\<close>





section \<open>The two runs\<close>

































section \<open>Failure and success of a run\<close>









section \<open>Files written by a run\<close>






end
